theory Spec2Isabelle
  imports Complex_Main "HOL-Library.Char_ord" "HOL-Library.List_Lexorder"
begin

section \<open>Reports and errors\<close>

text \<open>
  The Python exceptions that the modelled code can raise. Every raise of the source is a
  branch of the model returning \<open>Inl\<close> of one of these.
\<close>

datatype error = IndexError | KeyError | ValueError | ZeroDivisionError

text \<open>
  A record of the report store (\<^verbatim>\<open>bugzilla.get_bugs()\<close>), with the keys the source reads:
  \<^verbatim>\<open>bug["id"]\<close>, \<^verbatim>\<open>bug["summary"]\<close>, \<^verbatim>\<open>bug["comments"][i]["text"]\<close>, \<^verbatim>\<open>bug["duplicates"]\<close>,
  \<^verbatim>\<open>bug["dupe_of"]\<close> (an identifier or \<^verbatim>\<open>None\<close>), \<^verbatim>\<open>bug["creator"]\<close>, \<^verbatim>\<open>bug["keywords"]\<close>.
  The fields of \<^verbatim>\<open>"id"\<close>, \<^verbatim>\<open>"duplicates"\<close> and \<^verbatim>\<open>"keywords"\<close> are \<open>bug_id\<close>, \<open>bug_duplicates\<close>
  and \<open>bug_keywords\<close>: \<open>id\<close> is the identity of HOL, \<open>duplicates\<close> is the module's index
  below, and the third is a reserved word of the theory header.
\<close>

record bug =
  bug_id :: int
  summary :: string
  comments :: "string list"
  bug_duplicates :: "int list"
  dupe_of :: "int option"
  creator :: string
  bug_keywords :: "string list"

section \<open>The duplicate ground truth (module level, lines 37 and 49 to 64)\<close>

definition REPORTERS_TO_IGNORE :: "string set" where
  "REPORTERS_TO_IGNORE = {''intermittent-bug-filer@mozilla.bugs'', ''wptsync@mozilla.bugs''}"

text \<open>The condition of the comprehension that builds \<^verbatim>\<open>all_ids\<close> (line 54).\<close>

definition eligible :: "bug \<Rightarrow> bool" where
  "eligible b = (creator b \<notin> REPORTERS_TO_IGNORE \<and> ''dupeme'' \<notin> set (bug_keywords b))"

definition all_ids :: "bug list \<Rightarrow> int set" where
  "all_ids bugs = set (map bug_id (filter eligible bugs))"

text \<open>
  Lines 58 to 60: the list \<^verbatim>\<open>dupes\<close> of one report, its \<^verbatim>\<open>duplicates\<close> that are in
  \<^verbatim>\<open>all_ids\<close>, followed by its \<^verbatim>\<open>dupe_of\<close> when that is in \<^verbatim>\<open>all_ids\<close>
  (\<^verbatim>\<open>None in all_ids\<close> is false).
\<close>

definition dupes_of :: "int set \<Rightarrow> bug \<Rightarrow> int list" where
  "dupes_of ids b =
     filter (\<lambda>entry. entry \<in> ids) (bug_duplicates b) @
     (case dupe_of b of None \<Rightarrow> [] | Some d \<Rightarrow> if d \<in> ids then [d] else [])"

text \<open>
  \<^verbatim>\<open>duplicates = defaultdict(set)\<close>: a map from identifiers to sets. Reading a key of a
  \<^verbatim>\<open>defaultdict\<close> gives the empty set when the key is absent (and the write that follows
  every read in lines 62 and 64 stores the key).
\<close>

type_synonym index = "int \<rightharpoonup> int set"

definition dd_get :: "index \<Rightarrow> int \<Rightarrow> int set" where
  "dd_get m k = (case m k of None \<Rightarrow> {} | Some s \<Rightarrow> s)"

text \<open>
  The body of the loop of lines 57 to 64 for one report:
  \<^verbatim>\<open>duplicates[bug["id"]].update(dupes)\<close>, then
  \<^verbatim>\<open>for dupe in dupes: duplicates[dupe].add(bug["id"])\<close>.
\<close>

definition add_bug :: "int set \<Rightarrow> bug \<Rightarrow> index \<Rightarrow> index" where
  "add_bug ids b m =
     (let dupes = dupes_of ids b;
          m1 = m(bug_id b \<mapsto> dd_get m (bug_id b) \<union> set dupes)
      in fold (\<lambda>dupe m'. m'(dupe \<mapsto> insert (bug_id b) (dd_get m' dupe))) dupes m1)"

definition duplicates :: "bug list \<Rightarrow> index" where
  "duplicates bugs = fold (add_bug (all_ids bugs)) bugs Map.empty"

text \<open>
  The relation the loop builds: \<open>d\<close> is in the set of \<open>k\<close> after the loop exactly when it was
  there before, or some report with identifier \<open>k\<close> has \<open>d\<close> among its \<^verbatim>\<open>dupes\<close>, or some
  report with identifier \<open>d\<close> has \<open>k\<close> among its \<^verbatim>\<open>dupes\<close>.
\<close>

definition linked :: "int set \<Rightarrow> bug list \<Rightarrow> int \<Rightarrow> int \<Rightarrow> bool" where
  "linked ids bugs k d =
     (\<exists>b. b \<in> set bugs \<and> (bug_id b = k \<and> d \<in> set (dupes_of ids b)
                          \<or> bug_id b = d \<and> k \<in> set (dupes_of ids b)))"

section \<open>Errors as values\<close>

text \<open>
  An exception ends the computation it is raised in: \<open>bind_err\<close> passes an \<open>Inl\<close> on and
  continues with the value of an \<open>Inr\<close>; \<open>mapM_err\<close> is a comprehension whose element
  expression may raise, evaluated from left to right.
\<close>

definition bind_err :: "error + 'a \<Rightarrow> ('a \<Rightarrow> error + 'b) \<Rightarrow> error + 'b" where
  "bind_err m f = (case m of Inl e \<Rightarrow> Inl e | Inr x \<Rightarrow> f x)"

fun mapM_err :: "('a \<Rightarrow> error + 'b) \<Rightarrow> 'a list \<Rightarrow> error + 'b list" where
  "mapM_err f [] = Inr []"
| "mapM_err f (x # xs) =
     (case f x of
        Inl e \<Rightarrow> Inl e
      | Inr y \<Rightarrow> (case mapM_err f xs of Inl e \<Rightarrow> Inl e | Inr ys \<Rightarrow> Inr (y # ys)))"

section \<open>Text normalization (lines 39 to 47 and 67 to 85)\<close>

text \<open>
  What \<^verbatim>\<open>text_preprocess\<close> takes from outside this file: the list \<^verbatim>\<open>cleanup_functions\<close>
  (built from \<^verbatim>\<open>bugbug.feature_cleanup\<close>), the list \<^verbatim>\<open>stopwords.words("english")\<close> and the
  method \<^verbatim>\<open>PorterStemmer().stem\<close> of nltk. They are parameters of the model.
\<close>

record nlp =
  cleanup_functions :: "(string \<Rightarrow> string) list"
  stopwords_english :: "string list"
  ps_stem :: "string \<Rightarrow> string"

text \<open>
  \<^verbatim>\<open>get_text\<close> (lines 67 and 68): the summary, a space and the text of the first comment.
  \<open>comments\<close> holds the texts of the comments; \<^verbatim>\<open>bug["comments"][0]\<close> raises IndexError
  when a report has none.
\<close>

definition get_text :: "bug \<Rightarrow> error + string" where
  "get_text b =
     (case comments b of [] \<Rightarrow> Inl IndexError | c # _ \<Rightarrow> Inr (summary b @ '' '' @ c))"

text \<open>
  A text is the list of its characters. \<^verbatim>\<open>re.sub("[^a-zA-Z0-9]", " ", text)\<close> replaces every
  character that is not an ASCII letter or digit by a space; after it the text is ASCII,
  and the only white space in it is the space.
\<close>

definition is_alnum :: "char \<Rightarrow> bool" where
  "is_alnum c =
     (let n = (of_char c :: nat)
      in (48 \<le> n \<and> n \<le> 57) \<or> (65 \<le> n \<and> n \<le> 90) \<or> (97 \<le> n \<and> n \<le> 122))"

definition re_sub_non_alnum :: "string \<Rightarrow> string" where
  "re_sub_non_alnum text = map (\<lambda>c. if is_alnum c then c else CHR '' '') text"

text \<open>\<^verbatim>\<open>str.lower\<close> on ASCII: the letters A to Z move to a to z.\<close>

definition lower_char :: "char \<Rightarrow> char" where
  "lower_char c =
     (let n = (of_char c :: nat) in if 65 \<le> n \<and> n \<le> 90 then char_of (n + 32) else c)"

definition str_lower :: "string \<Rightarrow> string" where
  "str_lower text = map lower_char text"

text \<open>
  \<^verbatim>\<open>str.split()\<close> with no argument: the maximal runs of characters that are not white
  space, in order; no empty string is returned. The ASCII white space of Python is the
  space, the characters 9 to 13 and 28 to 31. \<open>cur\<close> is the run read so far.
\<close>

definition is_space :: "char \<Rightarrow> bool" where
  "is_space c =
     (let n = (of_char c :: nat) in n = 32 \<or> (9 \<le> n \<and> n \<le> 13) \<or> (28 \<le> n \<and> n \<le> 31))"

fun split_from :: "string \<Rightarrow> string \<Rightarrow> string list" where
  "split_from cur [] = (if cur = [] then [] else [cur])"
| "split_from cur (c # cs) =
     (if is_space c then (if cur = [] then split_from [] cs else cur # split_from [] cs)
      else split_from (cur @ [c]) cs)"

definition str_split :: "string \<Rightarrow> string list" where
  "str_split text = split_from [] text"

text \<open>\<^verbatim>\<open>" ".join(words)\<close>.\<close>

fun str_join :: "string list \<Rightarrow> string" where
  "str_join [] = []"
| "str_join [w] = w"
| "str_join (w # ws) = w @ '' '' @ str_join ws"

text \<open>
  \<^verbatim>\<open>text_preprocess(text)\<close> with \<^verbatim>\<open>join=False\<close>, the default (lines 71 to 85): the cleanup
  functions in order, the substitution, then the stems of the words of the lowered text
  that are not stop words and are longer than one character.
\<close>

definition text_preprocess :: "nlp \<Rightarrow> string \<Rightarrow> string list" where
  "text_preprocess env text0 =
     (let text = fold (\<lambda>func text. func text) (cleanup_functions env) text0;
          text = re_sub_non_alnum text
      in map (ps_stem env)
           (filter (\<lambda>word. word \<notin> set (stopwords_english env) \<and> length word > 1)
              (str_split (str_lower text))))"

text \<open>\<^verbatim>\<open>text_preprocess(text, join=True)\<close>: the tokens joined by single spaces (line 84).\<close>

definition text_preprocess_join :: "nlp \<Rightarrow> string \<Rightarrow> string" where
  "text_preprocess_join env text0 = str_join (text_preprocess env text0)"

text \<open>
  The characters of a token that the pipeline leaves as they are: the digits and the
  lower-case letters.
\<close>

definition is_lower_or_digit :: "char \<Rightarrow> bool" where
  "is_lower_or_digit c =
     (let n = (of_char c :: nat) in (48 \<le> n \<and> n \<le> 57) \<or> (97 \<le> n \<and> n \<le> 122))"

section \<open>The latent-semantic backend (lines 120 to 163)\<close>

text \<open>
  The state of \<^verbatim>\<open>LSISimilarity\<close> that a query reads: \<^verbatim>\<open>self.corpus\<close>, the list of
  \<^verbatim>\<open>[bug["id"], textual_features]\<close>, and the chain \<^verbatim>\<open>self.dictionary.doc2bow\<close>,
  \<^verbatim>\<open>self.lsi[...]\<close>, \<^verbatim>\<open>self.index[...]\<close> of gensim, which maps the tokens of a query to one
  similarity for each document of the corpus, in the corpus's order. The chain is fitted
  by gensim in \<^verbatim>\<open>__init__\<close>; here it is the field \<open>lsi_sims\<close>.
\<close>

record lsi_similarity =
  lsi_corpus :: "(int \<times> string list) list"
  lsi_sims :: "string list \<Rightarrow> real list"

text \<open>
  \<^verbatim>\<open>LSISimilarity.__init__\<close> (lines 121 to 148): the corpus is built report by report;
  \<open>fit\<close> stands for gensim's fitting of dictionary, TF-IDF, LSI and index on the corpus.
\<close>

definition LSISimilarity_init ::
  "nlp \<Rightarrow> ((int \<times> string list) list \<Rightarrow> string list \<Rightarrow> real list) \<Rightarrow> bug list
     \<Rightarrow> error + lsi_similarity" where
  "LSISimilarity_init env fit bugs =
     bind_err
       (mapM_err (\<lambda>bug. bind_err (get_text bug)
                   (\<lambda>t. Inr (bug_id bug, text_preprocess env t))) bugs)
       (\<lambda>corpus. Inr \<lparr>lsi_corpus = corpus, lsi_sims = fit corpus\<rparr>)"

text \<open>
  \<^verbatim>\<open>LSISimilarity.get_similar_bugs(query, k=10)\<close> (lines 150 to 163).
  \<^verbatim>\<open>sorted(enumerate(sims), key=lambda item: -item[1])\<close> is a stable sort, as \<open>sort_key\<close> is.
  The index has one similarity for each document, so \<^verbatim>\<open>self.corpus[j[0]]\<close> is in range.
\<close>

definition LSISimilarity_get_similar_bugs ::
  "nlp \<Rightarrow> lsi_similarity \<Rightarrow> bug \<Rightarrow> nat \<Rightarrow> error + int list" where
  "LSISimilarity_get_similar_bugs env self query k =
     (case comments query of
        [] \<Rightarrow> Inl IndexError
      | c # _ \<Rightarrow>
          (let query_summary = summary query @ '' '' @ c;
               query_summary = text_preprocess env query_summary;
               sims = lsi_sims self query_summary;
               sims = sort_key (\<lambda>item. - snd item) (enumerate 0 sims)
           in Inr (map (\<lambda>j. fst (lsi_corpus self ! fst j)) (take k sims))))"

section \<open>The vector-space backend (lines 166 to 187)\<close>

text \<open>
  The state of \<^verbatim>\<open>NeighborsSimilarity\<close> that a query reads: the fitted vectorizer's
  \<^verbatim>\<open>transform\<close> on one text (its result is a vector of the type \<open>'v\<close>), the fitted
  \<^verbatim>\<open>NearestNeighbors\<close>'s \<^verbatim>\<open>kneighbors\<close> on one vector (the row \<^verbatim>\<open>indices[0]\<close>, positions in
  the fitted collection), and \<^verbatim>\<open>self.bug_ids\<close>. Both are sklearn's and are parameters.
\<close>

record 'v neighbors_similarity =
  nb_transform :: "string \<Rightarrow> 'v"
  nb_kneighbors :: "'v \<Rightarrow> nat list"
  nb_bug_ids :: "int list"

text \<open>
  \<^verbatim>\<open>NeighborsSimilarity.__init__\<close> (lines 167 to 178): every report's text goes through
  \<^verbatim>\<open>text_preprocess(get_text(bug), join=True)\<close> before the vectorizer is fitted on the texts
  and the neighbour structure on their vectors. \<open>fit_vectorizer\<close> stands for
  \<^verbatim>\<open>self.vectorizer.fit\<close> (giving the fitted \<^verbatim>\<open>transform\<close>), \<open>fit_neighbors\<close> for
  \<^verbatim>\<open>NearestNeighbors(n_neighbors=k).fit\<close> (giving the fitted \<^verbatim>\<open>kneighbors\<close>).
\<close>

definition NeighborsSimilarity_init ::
  "nlp \<Rightarrow> nat \<Rightarrow> (string list \<Rightarrow> string \<Rightarrow> 'v) \<Rightarrow> (nat \<Rightarrow> 'v list \<Rightarrow> 'v \<Rightarrow> nat list)
     \<Rightarrow> bug list \<Rightarrow> error + 'v neighbors_similarity" where
  "NeighborsSimilarity_init env k fit_vectorizer fit_neighbors bugs =
     bind_err
       (mapM_err (\<lambda>bug. bind_err (get_text bug)
                   (\<lambda>t. Inr (text_preprocess_join env t))) bugs)
       (\<lambda>text.
          (let transform = fit_vectorizer text
           in Inr \<lparr>nb_transform = transform,
                   nb_kneighbors = fit_neighbors k (map transform text),
                   nb_bug_ids = map bug_id bugs\<rparr>))"

text \<open>
  \<^verbatim>\<open>NeighborsSimilarity.get_similar_bugs(query)\<close> (lines 180 to 187). The argument of
  \<^verbatim>\<open>self.vectorizer.transform\<close> is \<^verbatim>\<open>[get_text(query)]\<close>. The positions returned by
  \<^verbatim>\<open>kneighbors\<close> are positions of the fitted collection, so \<^verbatim>\<open>self.bug_ids[ind]\<close> is in
  range.
\<close>

definition NeighborsSimilarity_get_similar_bugs ::
  "'v neighbors_similarity \<Rightarrow> bug \<Rightarrow> error + int list" where
  "NeighborsSimilarity_get_similar_bugs self query =
     bind_err (get_text query)
       (\<lambda>t. (let processed_query = nb_transform self t;
                 indices = nb_kneighbors self processed_query
             in Inr (map (\<lambda>ind. nb_bug_ids self ! ind)
                       (filter (\<lambda>ind. nb_bug_ids self ! ind \<noteq> bug_id query) indices))))"

text \<open>
  The query of the vector-space backend as the specification words it: normalize the
  query text, project it into the fitted vector space, retrieve the nearest neighbours,
  exclude the query's own identifier.
\<close>

definition NeighborsSimilarity_get_similar_bugs_spec ::
  "nlp \<Rightarrow> 'v neighbors_similarity \<Rightarrow> bug \<Rightarrow> error + int list" where
  "NeighborsSimilarity_get_similar_bugs_spec env self query =
     bind_err (get_text query)
       (\<lambda>t. (let processed_query = nb_transform self (text_preprocess_join env t);
                 indices = nb_kneighbors self processed_query
             in Inr (map (\<lambda>ind. nb_bug_ids self ! ind)
                       (filter (\<lambda>ind. nb_bug_ids self ! ind \<noteq> bug_id query) indices))))"

section \<open>The word-embedding-distance backend (lines 190 to 315)\<close>

subsection \<open>Distances\<close>

text \<open>
  A Python float that is a real number or \<^verbatim>\<open>float("inf")\<close>, which \<^verbatim>\<open>wmdistance\<close> returns
  for two documents it cannot compare. The order is that of the floats: every real is
  below \<open>PInf\<close>.
\<close>

datatype fdist = Fin real | PInf

instantiation fdist :: linorder
begin

fun less_eq_fdist :: "fdist \<Rightarrow> fdist \<Rightarrow> bool" where
  "less_eq_fdist (Fin x) (Fin y) = (x \<le> y)"
| "less_eq_fdist PInf (Fin y) = False"
| "less_eq_fdist d PInf = True"

definition less_fdist :: "fdist \<Rightarrow> fdist \<Rightarrow> bool" where
  "less_fdist d e = (d \<le> e \<and> \<not> e \<le> d)"

instance
proof
  fix x y z :: fdist
  show "(x < y) = (x \<le> y \<and> \<not> y \<le> x)"
    by (simp add: less_fdist_def)
  show "x \<le> x"
    by (cases x) simp_all
  show "x \<le> y \<Longrightarrow> y \<le> z \<Longrightarrow> x \<le> z"
    by (cases x; cases y; cases z) simp_all
  show "x \<le> y \<Longrightarrow> y \<le> x \<Longrightarrow> x = y"
    by (cases x; cases y) simp_all
  show "x \<le> y \<or> y \<le> x"
    by (cases x; cases y) auto
qed

end

subsection \<open>The embedding model and the backend's state\<close>

text \<open>
  What a query reads of \<^verbatim>\<open>self.w2vmodel.wv\<close>: \<^verbatim>\<open>vocab\<close>, the dictionary from a word to its
  entry (of which only \<^verbatim>\<open>.index\<close> is read), and \<^verbatim>\<open>vectors_norm\<close>, the matrix of the
  unit-length vectors, one row for each index. The model is trained by gensim
  (\<^verbatim>\<open>Word2Vec(self.corpus, size=100, min_count=5)\<close>) and is a parameter here.
\<close>

record w2v =
  vocab :: "string \<rightharpoonup> nat"
  vectors_norm :: "real list list"

record wmd_similarity =
  wmd_corpus :: "string list list"
  wmd_bug_ids :: "int list"
  w2vmodel :: w2v

text \<open>
  \<^verbatim>\<open>Word2VecWmdSimilarity.__init__\<close> (lines 191 to 204). \<open>indexes\<close> is the list
  \<^verbatim>\<open>list(range(len(self.corpus)))\<close> after \<^verbatim>\<open>random.shuffle\<close>, a permutation of the
  positions; \<open>train\<close> stands for gensim's training and \<^verbatim>\<open>init_sims\<close>.
\<close>

definition Word2VecWmdSimilarity_init ::
  "nlp \<Rightarrow> (string list list \<Rightarrow> w2v) \<Rightarrow> nat list \<Rightarrow> bug list \<Rightarrow> error + wmd_similarity" where
  "Word2VecWmdSimilarity_init env train indexes bugs =
     bind_err
       (mapM_err (\<lambda>bug. bind_err (get_text bug) (\<lambda>t. Inr (text_preprocess env t))) bugs)
       (\<lambda>corpus0.
          (let bug_ids0 = map bug_id bugs;
               corpus = map (\<lambda>idx. corpus0 ! idx) indexes;
               bug_ids = map (\<lambda>idx. bug_ids0 ! idx) indexes
           in Inr \<lparr>wmd_corpus = corpus, wmd_bug_ids = bug_ids, w2vmodel = train corpus\<rparr>))"

text \<open>\<^verbatim>\<open>[word for word in ws if word in self.w2vmodel.wv.vocab]\<close> (lines 258, 273, 301).\<close>

definition in_vocab_words :: "w2v \<Rightarrow> string list \<Rightarrow> string list" where
  "in_vocab_words model ws = filter (\<lambda>word. vocab model word \<noteq> None) ws"

text \<open>
  \<^verbatim>\<open>[self.w2vmodel.wv.vocab[word].index for word in ws]\<close> (lines 265, 275): KeyError for a
  word that is not in the vocabulary.
\<close>

definition vocab_indexes :: "w2v \<Rightarrow> string list \<Rightarrow> error + nat list" where
  "vocab_indexes model ws =
     mapM_err (\<lambda>word. case vocab model word of None \<Rightarrow> Inl KeyError | Some i \<Rightarrow> Inr i) ws"

subsection \<open>numpy\<close>

text \<open>
  A matrix is the list of its rows. \<^verbatim>\<open>a[indexes]\<close> with a list of row numbers selects
  those rows, in the list's order and with repetitions; a number out of range raises
  IndexError.
\<close>

definition np_take :: "'a list \<Rightarrow> nat list \<Rightarrow> error + 'a list" where
  "np_take a indexes =
     mapM_err (\<lambda>i. if i < length a then Inr (a ! i) else Inl IndexError) indexes"

definition dot :: "real list \<Rightarrow> real list \<Rightarrow> real" where
  "dot u v = sum_list (map2 (*) u v)"

text \<open>
  \<^verbatim>\<open>np.min\<close> of no numbers raises ValueError (a zero-size array has no minimum).
  Along axis 0 of a matrix with at least one row it gives the minimum of every column,
  and the empty vector when the rows are empty; along axis 1 it gives the minimum of
  every row, and raises when the rows are empty.
\<close>

definition np_min :: "real list \<Rightarrow> error + real" where
  "np_min xs = (if xs = [] then Inl ValueError else Inr (min_list xs))"

definition np_min_axis0 :: "real list list \<Rightarrow> error + real list" where
  "np_min_axis0 rows = mapM_err np_min (transpose rows)"

definition np_min_axis1 :: "real list list \<Rightarrow> error + real list" where
  "np_min_axis1 rows = mapM_err np_min rows"

subsection \<open>The precomputed cosine distances and the relaxed distance\<close>

text \<open>
  Lines 260 to 269: \<^verbatim>\<open>all_distances[v][q]\<close> is one minus the dot product of the vector of
  index \<open>v\<close> and the vector of the \<open>q\<close>-th word of the query: one row for each index of the
  vocabulary, one column for each position of \<^verbatim>\<open>words\<close>.
\<close>

definition all_distances_of :: "w2v \<Rightarrow> string list \<Rightarrow> error + real list list" where
  "all_distances_of model words =
     bind_err (vocab_indexes model words)
       (\<lambda>qidx. bind_err (np_take (vectors_norm model) qidx)
          (\<lambda>qvecs. Inr (map (\<lambda>u. map (\<lambda>v. 1 - dot u v) qvecs) (vectors_norm model))))"

text \<open>
  Lines 277 to 281, for the indexes of one document (not empty, by the test of line 276):
  \<^verbatim>\<open>word_dists = all_distances[indexes]\<close> and
  \<^verbatim>\<open>rwmd = max(np.sum(np.min(word_dists, axis=0)), np.sum(np.min(word_dists, axis=1)))\<close>.
\<close>

definition rwmd :: "real list list \<Rightarrow> nat list \<Rightarrow> error + real" where
  "rwmd all_distances indexes =
     bind_err (np_take all_distances indexes)
       (\<lambda>word_dists. bind_err (np_min_axis0 word_dists)
          (\<lambda>m0. bind_err (np_min_axis1 word_dists)
             (\<lambda>m1. Inr (max (sum_list m0) (sum_list m1)))))"

text \<open>
  The loop of lines 270 to 283, one document: the pair \<^verbatim>\<open>(self.bug_ids[i], rwmd)\<close> that is
  appended to \<^verbatim>\<open>distances\<close>, or nothing for a document with no word in the vocabulary.
  \<^verbatim>\<open>self.bug_ids\<close> and \<^verbatim>\<open>self.corpus\<close> have the same length (lines 194 to 201).
\<close>

definition relaxed_candidate ::
  "wmd_similarity \<Rightarrow> real list list \<Rightarrow> nat \<Rightarrow> error + (int \<times> real) list" where
  "relaxed_candidate self all_distances i =
     (let cleaned_corpus = in_vocab_words (w2vmodel self) (wmd_corpus self ! i)
      in bind_err (vocab_indexes (w2vmodel self) cleaned_corpus)
           (\<lambda>indexes. if length indexes \<noteq> 0
                       then bind_err (rwmd all_distances indexes)
                              (\<lambda>r. Inr [(wmd_bug_ids self ! i, r)])
                       else Inr []))"

definition relaxed_distances ::
  "wmd_similarity \<Rightarrow> real list list \<Rightarrow> error + (int \<times> real) list" where
  "relaxed_distances self all_distances =
     bind_err (mapM_err (relaxed_candidate self all_distances) [0..<length (wmd_corpus self)])
       (\<lambda>found. Inr (concat found))"

subsection \<open>The exact transport distance (lines 209 to 253)\<close>

text \<open>
  \<^verbatim>\<open>gensim.corpora.Dictionary(documents=[document1, document2])\<close>: the documents are added
  in order, and each gives its words that are new to the dictionary the next free
  identifiers, in sorted order. The dictionary is the list of its words, the identifier
  of a word being its position.
\<close>

definition dictionary_add :: "string list \<Rightarrow> string list \<Rightarrow> string list" where
  "dictionary_add document tokens =
     tokens @ sort (remdups (filter (\<lambda>w. w \<notin> set tokens) document))"

definition gensim_dictionary :: "string list list \<Rightarrow> string list" where
  "gensim_dictionary documents = fold dictionary_add documents []"

text \<open>
  The inner function \<^verbatim>\<open>nbow\<close> (lines 242 to 248): for every word of the dictionary, its
  number of occurrences in the document over the document's length.
\<close>

definition nbow :: "string list \<Rightarrow> string list \<Rightarrow> real list" where
  "nbow dictionary document =
     map (\<lambda>t. real (count_list document t) / real (length document)) dictionary"

text \<open>
  Modelled from the spec: \<^verbatim>\<open>emd\<close> of the library pyemd, which is not part of the repository.
  The transport distance is "the minimum total cost of moving one probability
  distribution's mass onto another's, under a given pairwise ground-cost matrix": a flow
  \<open>F\<close> moves the mass \<open>F i j\<close> from bin \<open>i\<close> of the first histogram to bin \<open>j\<close> of the second,
  it is feasible when no entry is negative, row \<open>i\<close> sums to \<open>d1 ! i\<close> and column \<open>j\<close> to
  \<open>d2 ! j\<close>; its cost is the sum of \<open>F i j\<close> times the cost of \<open>(i, j)\<close>.
\<close>

definition feasible :: "real list \<Rightarrow> real list \<Rightarrow> (nat \<Rightarrow> nat \<Rightarrow> real) \<Rightarrow> bool" where
  "feasible d1 d2 F =
     ((\<forall>i j. 0 \<le> F i j) \<and>
      (\<forall>i. i < length d1 \<longrightarrow> (\<Sum>j<length d2. F i j) = d1 ! i) \<and>
      (\<forall>j. j < length d2 \<longrightarrow> (\<Sum>i<length d1. F i j) = d2 ! j))"

definition flow_cost :: "real list list \<Rightarrow> nat \<Rightarrow> nat \<Rightarrow> (nat \<Rightarrow> nat \<Rightarrow> real) \<Rightarrow> real" where
  "flow_cost C n1 n2 F = (\<Sum>i<n1. \<Sum>j<n2. F i j * (C ! i ! j))"

definition emd :: "real list \<Rightarrow> real list \<Rightarrow> real list list \<Rightarrow> real" where
  "emd d1 d2 C = Inf {c. \<exists>F. feasible d1 d2 F \<and> c = flow_cost C (length d1) (length d2) F}"

text \<open>
  One entry of \<^verbatim>\<open>distance_matrix\<close> (lines 228 to 236, with \<^verbatim>\<open>distance_metric="cosine"\<close>, the
  default and the only value the class passes): zero unless \<open>t1\<close> is a word of the first
  document and \<open>t2\<close> one of the second, and then \<^verbatim>\<open>all_distances[model.wv.vocab[t2].index, i]\<close>,
  where \<open>i\<close> is the identifier of \<open>t1\<close> in the dictionary.
\<close>

definition distance_entry ::
  "w2v \<Rightarrow> string list \<Rightarrow> string list \<Rightarrow> real list list \<Rightarrow> nat \<times> string \<Rightarrow> nat \<times> string
     \<Rightarrow> error + real" where
  "distance_entry model document1 document2 all_distances it1 jt2 =
     (let i = fst it1; t1 = snd it1; t2 = snd jt2
      in if t1 \<notin> set document1 \<or> t2 \<notin> set document2 then Inr 0
         else (case vocab model t2 of
                 None \<Rightarrow> Inl KeyError
               | Some r \<Rightarrow>
                   if r < length all_distances \<and> i < length (all_distances ! r)
                   then Inr (all_distances ! r ! i) else Inl IndexError))"

definition wmdistance ::
  "w2v \<Rightarrow> string list \<Rightarrow> string list \<Rightarrow> real list list \<Rightarrow> error + fdist" where
  "wmdistance model document1 document2 all_distances =
     (if length document1 = 0 \<or> length document2 = 0 then Inr PInf
      else
        (let dictionary = gensim_dictionary [document1, document2];
             items = enumerate 0 dictionary
         in bind_err
              (mapM_err
                 (\<lambda>it1. mapM_err (distance_entry model document1 document2 all_distances it1)
                           items)
                 items)
              (\<lambda>distance_matrix.
                 if sum_list (map sum_list distance_matrix) = 0 then Inr PInf
                 else
                   (let d1 = nbow dictionary document1;
                        d2 = nbow dictionary document2
                    in Inr (Fin (emd d1 d2 distance_matrix))))))"

subsection \<open>Filter and refine (lines 255 to 315)\<close>

text \<open>
  \<^verbatim>\<open>bisect.bisect(a, x)\<close> of the standard library (the same as \<^verbatim>\<open>bisect_right\<close>): the binary
  search between \<open>lo\<close> and \<open>hi\<close>, and \<^verbatim>\<open>list.insert(j, x)\<close>, which puts \<open>x\<close> before position \<open>j\<close>.
\<close>

function bisect_loop :: "fdist list \<Rightarrow> fdist \<Rightarrow> nat \<Rightarrow> nat \<Rightarrow> nat" where
  "bisect_loop a x lo hi =
     (if lo < hi
      then (let mid = (lo + hi) div 2
            in if x < a ! mid then bisect_loop a x lo mid else bisect_loop a x (mid + 1) hi)
      else lo)"
  by pat_completeness auto
termination
  by (relation "measure (\<lambda>(a, x, lo, hi). hi - lo)") auto

definition bisect :: "fdist list \<Rightarrow> fdist \<Rightarrow> nat" where
  "bisect a x = bisect_loop a x 0 (length a)"

definition list_insert :: "nat \<Rightarrow> 'a \<Rightarrow> 'a list \<Rightarrow> 'a list" where
  "list_insert j x xs = take j xs @ x # drop j xs"

text \<open>\<^verbatim>\<open>list.index(x)\<close>: the first position of \<open>x\<close>, ValueError when there is none.\<close>

fun list_index :: "'a list \<Rightarrow> 'a \<Rightarrow> error + nat" where
  "list_index [] x = Inl ValueError"
| "list_index (y # ys) x =
     (if y = x then Inr 0 else bind_err (list_index ys x) (\<lambda>i. Inr (Suc i)))"

text \<open>
  The loop of lines 290 to 307 over the sorted \<^verbatim>\<open>distances\<close>, with the two lists
  \<^verbatim>\<open>confirmed_distances_ids\<close> and \<^verbatim>\<open>confirmed_distances\<close> as its state. The first branch is
  the \<^verbatim>\<open>break\<close>.
\<close>

fun refine ::
  "wmd_similarity \<Rightarrow> string list \<Rightarrow> real list list \<Rightarrow> (int \<times> real) list
     \<Rightarrow> int list \<times> fdist list \<Rightarrow> error + (int list \<times> fdist list)" where
  "refine self words all_distances [] confirmed = Inr confirmed"
| "refine self words all_distances ((doc_id, rwmd_distance) # rest)
       (confirmed_distances_ids, confirmed_distances) =
     (if length confirmed_distances \<ge> 10 \<and> Fin rwmd_distance > confirmed_distances ! (10 - 1)
      then Inr (confirmed_distances_ids, confirmed_distances)
      else
        bind_err (list_index (wmd_bug_ids self) doc_id)
          (\<lambda>pos.
             (let doc_words_clean = in_vocab_words (w2vmodel self) (wmd_corpus self ! pos)
              in bind_err (wmdistance (w2vmodel self) words doc_words_clean all_distances)
                   (\<lambda>wmd.
                      (let j = bisect confirmed_distances wmd
                       in refine self words all_distances rest
                            (list_insert j doc_id confirmed_distances_ids,
                             list_insert j wmd confirmed_distances))))))"

text \<open>
  \<^verbatim>\<open>Word2VecWmdSimilarity.get_similar_bugs(query)\<close>. \<^verbatim>\<open>distances.sort(key=lambda v: v[1])\<close>
  and \<^verbatim>\<open>sorted(similarities, key=lambda v: v[1])\<close> are stable, as \<open>sort_key\<close> is.
\<close>

definition Word2VecWmdSimilarity_get_similar_bugs ::
  "nlp \<Rightarrow> wmd_similarity \<Rightarrow> bug \<Rightarrow> error + int list" where
  "Word2VecWmdSimilarity_get_similar_bugs env self query =
     bind_err (get_text query)
       (\<lambda>t.
          (let words = text_preprocess env t;
               words = in_vocab_words (w2vmodel self) words
           in bind_err (all_distances_of (w2vmodel self) words)
                (\<lambda>all_distances.
                   bind_err (relaxed_distances self all_distances)
                     (\<lambda>distances.
                        (let distances = sort_key snd distances
                         in bind_err (refine self words all_distances distances ([], []))
                              (\<lambda>confirmed.
                                 (let similarities = zip (fst confirmed) (snd confirmed)
                                  in Inr (map fst
                                       (filter (\<lambda>similar. fst similar \<noteq> bug_id query)
                                          (take 10 (sort_key snd similarities)))))))))))"

text \<open>
  The brute-force ranking of the specification: the exact transport distance of every
  candidate (every document with a word in the vocabulary, in the corpus's order), the
  candidates sorted by it, the first ten, without the query's own identifier.
\<close>

definition exact_candidate ::
  "wmd_similarity \<Rightarrow> string list \<Rightarrow> real list list \<Rightarrow> nat \<Rightarrow> error + (int \<times> fdist) list" where
  "exact_candidate self words all_distances i =
     (let doc_words_clean = in_vocab_words (w2vmodel self) (wmd_corpus self ! i)
      in if length doc_words_clean \<noteq> 0
         then bind_err (wmdistance (w2vmodel self) words doc_words_clean all_distances)
                (\<lambda>wmd. Inr [(wmd_bug_ids self ! i, wmd)])
         else Inr [])"

definition brute_force_similar_bugs ::
  "nlp \<Rightarrow> wmd_similarity \<Rightarrow> bug \<Rightarrow> error + int list" where
  "brute_force_similar_bugs env self query =
     bind_err (get_text query)
       (\<lambda>t.
          (let words = in_vocab_words (w2vmodel self) (text_preprocess env t)
           in bind_err (all_distances_of (w2vmodel self) words)
                (\<lambda>all_distances.
                   bind_err (mapM_err (exact_candidate self words all_distances)
                               [0..<length (wmd_corpus self)])
                     (\<lambda>found.
                        Inr (map fst
                              (filter (\<lambda>similar. fst similar \<noteq> bug_id query)
                                 (take 10 (sort_key snd (concat found)))))))))"

section \<open>The evaluation harness (lines 92 to 117)\<close>

text \<open>
  The loop of \<^verbatim>\<open>BaseSimilarity.evaluation\<close> over the reports, with the four counters
  \<^verbatim>\<open>total_r\<close>, \<^verbatim>\<open>hits_r\<close>, \<^verbatim>\<open>total_p\<close>, \<^verbatim>\<open>hits_p\<close> as its state. \<open>get_similar_bugs\<close> is the
  backend's method. The loop over the set \<^verbatim>\<open>duplicates[bug["id"]]\<close> adds one to \<^verbatim>\<open>total_r\<close>
  for each member and one to \<^verbatim>\<open>hits_r\<close> for each member that is in \<^verbatim>\<open>similar_bugs\<close>; the loop
  over \<^verbatim>\<open>similar_bugs\<close> adds one to \<^verbatim>\<open>total_p\<close> for each element and one to \<^verbatim>\<open>hits_p\<close> for each
  that is in the set. The two \<^verbatim>\<open>print\<close> calls inside the loop are left out.
\<close>

fun evaluation_loop ::
  "(bug \<Rightarrow> error + int list) \<Rightarrow> index \<Rightarrow> bug list \<Rightarrow> nat \<times> nat \<times> nat \<times> nat
     \<Rightarrow> error + (nat \<times> nat \<times> nat \<times> nat)" where
  "evaluation_loop get_similar_bugs dups [] counters = Inr counters"
| "evaluation_loop get_similar_bugs dups (bug # bugs) (total_r, hits_r, total_p, hits_p) =
     (if dd_get dups (bug_id bug) \<noteq> {}
      then bind_err (get_similar_bugs bug)
             (\<lambda>similar_bugs.
                (let truth = dd_get dups (bug_id bug)
                 in evaluation_loop get_similar_bugs dups bugs
                      (total_r + card truth,
                       hits_r + card {item \<in> truth. item \<in> set similar_bugs},
                       total_p + length similar_bugs,
                       hits_p + length (filter (\<lambda>element. element \<in> truth) similar_bugs))))
      else evaluation_loop get_similar_bugs dups bugs (total_r, hits_r, total_p, hits_p))"

text \<open>
  \<^verbatim>\<open>evaluation\<close>: what it prints (the percentages, in order) and the exception it ends
  with, if any. \<^verbatim>\<open>hits_r/total_r\<close> and \<^verbatim>\<open>hits_p/total_p\<close> divide Python integers and raise
  ZeroDivisionError for a zero denominator; the recall is printed before the precision
  is computed. The index is the module's \<^verbatim>\<open>duplicates\<close>, built from the same reports.
\<close>

definition evaluation ::
  "(bug \<Rightarrow> error + int list) \<Rightarrow> bug list \<Rightarrow> real list \<times> error option" where
  "evaluation get_similar_bugs bugs =
     (case evaluation_loop get_similar_bugs (duplicates bugs) bugs (0, 0, 0, 0) of
        Inl e \<Rightarrow> ([], Some e)
      | Inr (total_r, hits_r, total_p, hits_p) \<Rightarrow>
          if total_r = 0 then ([], Some ZeroDivisionError)
          else (let recall = real hits_r / real total_r * 100
                in if total_p = 0 then ([recall], Some ZeroDivisionError)
                   else ([recall, real hits_p / real total_p * 100], None)))"

section \<open>Reports used as concrete inputs\<close>

text \<open>
  \<open>report_filed\<close> is filed by a creator of the ignore list and references nothing;
  \<open>report_alone\<close> is an ordinary report that references nothing; \<open>report_refers\<close> lists
  report 1 among its duplicates; \<open>report_filed_dupe\<close> is filed by a creator of the ignore
  list and is marked a duplicate of report 2, which \<open>report_target\<close> is;
  \<open>report_dangling\<close> lists a report that the store does not hold.
\<close>

definition report_filed :: bug where
  "report_filed =
     \<lparr>bug_id = 1, summary = ''Intermittent timeout'', comments = [''seen on try''],
      bug_duplicates = [], dupe_of = None,
      creator = ''intermittent-bug-filer@mozilla.bugs'', bug_keywords = []\<rparr>"

definition report_alone :: bug where
  "report_alone =
     \<lparr>bug_id = 1, summary = ''Crash on startup'', comments = [''null pointer''],
      bug_duplicates = [], dupe_of = None,
      creator = ''dev@example.org'', bug_keywords = []\<rparr>"

definition report_refers :: bug where
  "report_refers =
     \<lparr>bug_id = 2, summary = ''Timeout in test'', comments = [''same as bug 1''],
      bug_duplicates = [1], dupe_of = None,
      creator = ''dev@example.org'', bug_keywords = []\<rparr>"

definition report_filed_dupe :: bug where
  "report_filed_dupe =
     \<lparr>bug_id = 1, summary = ''Intermittent timeout'', comments = [''seen on try''],
      bug_duplicates = [], dupe_of = Some 2,
      creator = ''intermittent-bug-filer@mozilla.bugs'', bug_keywords = []\<rparr>"

definition report_target :: bug where
  "report_target =
     \<lparr>bug_id = 2, summary = ''Timeout in test'', comments = [''times out''],
      bug_duplicates = [1], dupe_of = None,
      creator = ''dev@example.org'', bug_keywords = []\<rparr>"

definition report_dangling :: bug where
  "report_dangling =
     \<lparr>bug_id = 3, summary = ''Hang on exit'', comments = [''see bug 4''],
      bug_duplicates = [4], dupe_of = None,
      creator = ''dev@example.org'', bug_keywords = []\<rparr>"

section \<open>Backends used as concrete inputs\<close>

text \<open>
  A configuration of the normalization: no cleanup function, three stop words of nltk's
  English list, and a stemmer that agrees with the Porter stemmer on the words of the
  examples below (it strips the plural of \<open>wills\<close> and \<open>crashes\<close> and leaves \<open>will\<close>,
  \<open>crash\<close>, \<open>hang\<close>, \<open>leak\<close> and \<open>startup\<close> as they are).
\<close>

definition nlp_example :: nlp where
  "nlp_example =
     \<lparr>cleanup_functions = [],
      stopwords_english = [''the'', ''on'', ''will''],
      ps_stem = (\<lambda>w. if w = ''wills'' then ''will''
                      else if w = ''crashes'' then ''crash'' else w)\<rparr>"

definition query_report :: "int \<Rightarrow> string \<Rightarrow> string \<Rightarrow> bug" where
  "query_report n s c =
     \<lparr>bug_id = n, summary = s, comments = [c], bug_duplicates = [], dupe_of = None,
      creator = ''dev@example.org'', bug_keywords = []\<rparr>"

text \<open>
  A latent-semantic backend over two reports; its index gives the first document the
  similarity 1 and the second 1/2 (the query below is the first report itself).
\<close>

definition lsi_example :: lsi_similarity where
  "lsi_example =
     \<lparr>lsi_corpus = [(1, [''crash'', ''startup'']), (2, [''hang'', ''startup''])],
      lsi_sims = (\<lambda>q. [1, 1 / 2])\<rparr>"

text \<open>
  A vector-space backend over two reports, built by \<open>NeighborsSimilarity_init\<close>. The
  vector of a text is the text itself, and the neighbours of a vector are the positions of
  the fitted collection by the discrete distance (0 to an equal vector, 1 to any other),
  nearest first, the first \<open>k\<close> of them.
\<close>

definition text_vectorizer :: "string list \<Rightarrow> string \<Rightarrow> string" where
  "text_vectorizer fitted s = s"

definition discrete_neighbors :: "nat \<Rightarrow> string list \<Rightarrow> string \<Rightarrow> nat list" where
  "discrete_neighbors k vs v =
     take k (filter (\<lambda>i. vs ! i = v) [0..<length vs] @ filter (\<lambda>i. vs ! i \<noteq> v) [0..<length vs])"

definition neighbors_reports :: "bug list" where
  "neighbors_reports = [query_report 2 ''Hang'' ''hang'', query_report 1 ''Crash'' ''crash'']"

text \<open>
  A word-embedding-distance backend. The vocabulary has the three words \<open>hang\<close>, \<open>crash\<close>
  and \<open>leak\<close>, each of which occurs at least five times in the corpus (the model is
  trained with \<^verbatim>\<open>min_count=5\<close>), the most frequent first; their vectors have 100
  coordinates (\<^verbatim>\<open>size=100\<close>) and unit length: \<open>crash\<close> is the first unit vector, \<open>hang\<close> its
  opposite and \<open>leak\<close> the second unit vector, so the cosine distance from \<open>crash\<close> is 2 to
  \<open>hang\<close> and 1 to \<open>leak\<close>. The corpus
  has ten reports \<open>hang\<close> (identifiers 1 to 10), the report 11 with five times \<open>leak\<close> and
  the report 12 with five times \<open>crash\<close>.
\<close>

definition unit_vec :: "real \<Rightarrow> real \<Rightarrow> real list" where
  "unit_vec x y = x # y # replicate 98 0"

definition w2v_example :: w2v where
  "w2v_example =
     \<lparr>vocab = [''hang'' \<mapsto> 0, ''crash'' \<mapsto> 1, ''leak'' \<mapsto> 2],
      vectors_norm = [unit_vec (- 1) 0, unit_vec 1 0, unit_vec 0 1]\<rparr>"

definition wmd_example :: wmd_similarity where
  "wmd_example =
     \<lparr>wmd_corpus = replicate 10 [''hang''] @ [replicate 5 ''leak'', replicate 5 ''crash''],
      wmd_bug_ids = [1, 2, 3, 4, 5, 6, 7, 8, 9, 10, 11, 12],
      w2vmodel = w2v_example\<rparr>"

section \<open>Properties of the ground truth\<close>

lemma dd_get_upd: "dd_get (m(k \<mapsto> s)) k' = (if k' = k then s else dd_get m k')"
  by (simp add: dd_get_def)

lemma dd_get_add_back:
  "dd_get (fold (\<lambda>dupe m'. m'(dupe \<mapsto> insert x (dd_get m' dupe))) ds m) k =
     dd_get m k \<union> (if k \<in> set ds then {x} else {})"
  by (induction ds arbitrary: m) (auto simp: dd_get_upd)

lemma dom_add_back:
  "dom (fold (\<lambda>dupe m'. m'(dupe \<mapsto> insert x (dd_get m' dupe))) ds m) = dom m \<union> set ds"
  by (induction ds arbitrary: m) auto

lemma dd_get_add_bug:
  "dd_get (add_bug ids b m) k =
     dd_get m k \<union> (if k = bug_id b then set (dupes_of ids b) else {})
       \<union> (if k \<in> set (dupes_of ids b) then {bug_id b} else {})"
  by (simp add: add_bug_def Let_def dd_get_add_back dd_get_upd)

lemma dom_add_bug: "dom (add_bug ids b m) = dom m \<union> {bug_id b} \<union> set (dupes_of ids b)"
  by (auto simp: add_bug_def Let_def dom_add_back)

lemma linked_Nil: "linked ids [] k d = False"
  by (simp add: linked_def)

lemma linked_Cons:
  "linked ids (b # bugs) k d =
     (bug_id b = k \<and> d \<in> set (dupes_of ids b) \<or> bug_id b = d \<and> k \<in> set (dupes_of ids b)
      \<or> linked ids bugs k d)"
  by (auto simp: linked_def)

lemma linked_sym: "linked ids bugs k d = linked ids bugs d k"
  by (auto simp: linked_def)

lemma dd_get_fold_add_bug:
  "(d \<in> dd_get (fold (add_bug ids) bugs m) k) = (d \<in> dd_get m k \<or> linked ids bugs k d)"
proof (induction bugs arbitrary: m)
  case Nil
  show ?case by (simp add: linked_Nil)
next
  case (Cons b bugs)
  have "(d \<in> dd_get (fold (add_bug ids) (b # bugs) m) k) =
          (d \<in> dd_get (add_bug ids b m) k \<or> linked ids bugs k d)"
    using Cons.IH [of "add_bug ids b m"] by simp
  also have "\<dots> = (d \<in> dd_get m k \<or> linked ids (b # bugs) k d)"
    by (auto simp: dd_get_add_bug linked_Cons split: if_splits)
  finally show ?case .
qed

lemma dom_fold_add_bug:
  "dom (fold (add_bug ids) bugs m) =
     dom m \<union> bug_id ` set bugs \<union> (\<Union>b\<in>set bugs. set (dupes_of ids b))"
  by (induction bugs arbitrary: m) (auto simp: dom_add_bug)

lemma dd_get_empty: "dd_get Map.empty k = {}"
  by (simp add: dd_get_def)

lemma in_duplicates_iff:
  "(d \<in> dd_get (duplicates bugs) k) = linked (all_ids bugs) bugs k d"
  unfolding duplicates_def by (simp add: dd_get_fold_add_bug dd_get_empty)

lemma dom_duplicates:
  "dom (duplicates bugs) =
     bug_id ` set bugs \<union> (\<Union>b\<in>set bugs. set (dupes_of (all_ids bugs) b))"
  by (simp add: duplicates_def dom_fold_add_bug)

lemma dupes_of_subset: "set (dupes_of ids b) \<subseteq> ids"
  by (auto simp: dupes_of_def split: option.splits if_splits)

lemmas ground_truth_defs =
  duplicates_def add_bug_def all_ids_def eligible_def REPORTERS_TO_IGNORE_def dupes_of_def
  dd_get_def Let_def

text \<open>
  C4. Symmetry of the ground truth: for all identifiers \<open>A\<close> and \<open>B\<close>, after the
  construction \<open>B\<close> is in the duplicate set of \<open>A\<close> if and only if \<open>A\<close> is in the duplicate
  set of \<open>B\<close> (the set of an absent key being empty, as a \<^verbatim>\<open>defaultdict\<close> reads it).
\<close>

theorem duplicates_symmetric:
  "(B \<in> dd_get (duplicates bugs) A) = (A \<in> dd_get (duplicates bugs) B)"
proof -
  have "(B \<in> dd_get (duplicates bugs) A) = linked (all_ids bugs) bugs A B"
    by (rule in_duplicates_iff)
  also have "\<dots> = linked (all_ids bugs) bugs B A"
    by (rule linked_sym)
  also have "\<dots> = (A \<in> dd_get (duplicates bugs) B)"
    by (rule in_duplicates_iff [symmetric])
  finally show ?thesis .
qed

theorem duplicates_symmetric_witness:
  "1 \<in> dd_get (duplicates [report_alone, report_refers]) 2
   \<and> 2 \<in> dd_get (duplicates [report_alone, report_refers]) 1"
proof -
  have fwd: "1 \<in> dd_get (duplicates [report_alone, report_refers]) 2"
    by (simp add: ground_truth_defs report_alone_def report_refers_def)
  with duplicates_symmetric [of 1 "[report_alone, report_refers]" 2] show ?thesis
    by simp
qed

text \<open>
  C5, as the claim states it, fails: a report of an ignored creator is a key of the
  index, here with the empty set as its value.
\<close>

theorem ineligible_report_is_key:
  "creator report_filed \<in> REPORTERS_TO_IGNORE
   \<and> duplicates [report_filed] (bug_id report_filed) = Some {}"
  by (simp add: ground_truth_defs report_filed_def)

text \<open>
  The same loop also enters an ineligible report that itself references an eligible one:
  both directions of the pair are stored.
\<close>

lemma ineligible_report_with_reference:
  "creator report_filed_dupe \<in> REPORTERS_TO_IGNORE
   \<and> duplicates [report_filed_dupe, report_target] 1 = Some {2}
   \<and> duplicates [report_filed_dupe, report_target] 2 = Some {1}"
  by (simp add: ground_truth_defs report_filed_dupe_def report_target_def)

text \<open>
  C5, amended. A report that is not eligible (its creator is in the ignore list or its
  keywords contain the marker), that is the only report with its identifier and whose
  own record references no eligible report, is a member of no set of the index, and its
  own identifier is a key whose set is empty.
\<close>

theorem ineligible_report_unreferenced:
  assumes "R \<in> set bugs"
    and "creator R \<in> REPORTERS_TO_IGNORE \<or> ''dupeme'' \<in> set (bug_keywords R)"
    and "\<forall>b\<in>set bugs. bug_id b = bug_id R \<longrightarrow> b = R"
    and "dupes_of (all_ids bugs) R = []"
  shows "(\<forall>A. bug_id R \<notin> dd_get (duplicates bugs) A)
         \<and> duplicates bugs (bug_id R) = Some {}"
proof -
  have not_elig: "\<not> eligible R"
    using assms(2) by (auto simp: eligible_def)
  have not_in: "bug_id R \<notin> all_ids bugs"
  proof
    assume "bug_id R \<in> all_ids bugs"
    then obtain b where "b \<in> set bugs" "eligible b" "bug_id b = bug_id R"
      by (auto simp: all_ids_def)
    with assms(3) not_elig show False by auto
  qed
  have no_link: "\<not> linked (all_ids bugs) bugs A (bug_id R)" for A
  proof
    assume "linked (all_ids bugs) bugs A (bug_id R)"
    then obtain b where b: "b \<in> set bugs"
      and cases: "bug_id b = A \<and> bug_id R \<in> set (dupes_of (all_ids bugs) b)
                  \<or> bug_id b = bug_id R \<and> A \<in> set (dupes_of (all_ids bugs) b)"
      by (auto simp: linked_def)
    from cases show False
    proof
      assume "bug_id b = A \<and> bug_id R \<in> set (dupes_of (all_ids bugs) b)"
      with dupes_of_subset [of "all_ids bugs" b] not_in show False by auto
    next
      assume "bug_id b = bug_id R \<and> A \<in> set (dupes_of (all_ids bugs) b)"
      with assms(3) assms(4) b show False by auto
    qed
  qed
  have "bug_id R \<notin> dd_get (duplicates bugs) A" for A
    using no_link [of A] by (simp add: in_duplicates_iff)
  moreover have "duplicates bugs (bug_id R) = Some {}"
  proof -
    have "bug_id R \<in> dom (duplicates bugs)"
      using assms(1) by (simp add: dom_duplicates)
    then obtain s where s: "duplicates bugs (bug_id R) = Some s"
      by auto
    have "dd_get (duplicates bugs) (bug_id R) = {}"
      using no_link by (auto simp: in_duplicates_iff linked_sym)
    with s show ?thesis
      by (simp add: dd_get_def)
  qed
  ultimately show ?thesis by blast
qed

theorem ineligible_report_unreferenced_witness:
  "(\<forall>A. 1 \<notin> dd_get (duplicates [report_filed, report_refers]) A)
   \<and> duplicates [report_filed, report_refers] 1 = Some {}"
proof -
  have "dupes_of (all_ids [report_filed, report_refers]) report_filed = []"
    by (simp add: dupes_of_def report_filed_def)
  with ineligible_report_unreferenced [of report_filed "[report_filed, report_refers]"]
  show ?thesis
    by (simp add: REPORTERS_TO_IGNORE_def report_filed_def report_refers_def)
qed

text \<open>
  C6, as the claim states it, fails: a report with no duplicate reference in either
  direction has an entry, the empty set.
\<close>

theorem unreferenced_report_has_entry:
  "dupes_of (all_ids [report_alone]) report_alone = []
   \<and> duplicates [report_alone] (bug_id report_alone) = Some {}"
  by (simp add: ground_truth_defs report_alone_def)

text \<open>
  C6, amended. After the construction, a report of the store with no duplicate reference
  in either direction (after the eligibility filter: no record with its identifier lists
  an eligible report, and no record lists its identifier) has an entry, and the entry is
  the empty set: a present key, not an absent one.
\<close>

theorem unreferenced_report_empty_entry:
  assumes "R \<in> set bugs"
    and "\<forall>b\<in>set bugs. bug_id b = bug_id R \<longrightarrow> dupes_of (all_ids bugs) b = []"
    and "\<forall>b\<in>set bugs. bug_id R \<notin> set (dupes_of (all_ids bugs) b)"
  shows "duplicates bugs (bug_id R) = Some {}"
proof -
  have "bug_id R \<in> dom (duplicates bugs)"
    using assms(1) by (simp add: dom_duplicates)
  then obtain s where s: "duplicates bugs (bug_id R) = Some s"
    by auto
  have "\<not> linked (all_ids bugs) bugs (bug_id R) d" for d
    using assms(2) assms(3) by (auto simp: linked_def)
  then have "dd_get (duplicates bugs) (bug_id R) = {}"
    by (auto simp: in_duplicates_iff)
  with s show ?thesis
    by (simp add: dd_get_def)
qed

theorem unreferenced_report_empty_entry_witness:
  "duplicates [report_alone, report_dangling] (bug_id report_alone) = Some {}"
proof -
  have ids: "all_ids [report_alone, report_dangling] = {1, 3}"
    by (auto simp: all_ids_def eligible_def REPORTERS_TO_IGNORE_def report_alone_def
        report_dangling_def)
  show ?thesis
    using unreferenced_report_empty_entry [of report_alone "[report_alone, report_dangling]"]
    by (simp add: ids dupes_of_def report_alone_def report_dangling_def)
qed

section \<open>Properties of the evaluation harness\<close>

lemma bind_err_Inr: "bind_err (Inr x) f = f x"
  by (simp add: bind_err_def)

lemma bind_err_Inl: "bind_err (Inl e) f = Inl e"
  by (simp add: bind_err_def)

lemma evaluation_loop_no_results:
  assumes "\<forall>b\<in>set bugs. dd_get dups (bug_id b) \<noteq> {} \<longrightarrow> get_similar_bugs b = Inr []"
  shows "\<exists>total_r hits_r.
           evaluation_loop get_similar_bugs dups bugs (tr, hr, tp, hp)
             = Inr (total_r, hits_r, tp, hp)"
  using assms
proof (induction bugs arbitrary: tr hr)
  case Nil
  show ?case by simp
next
  case (Cons b bugs)
  then have rest: "\<exists>total_r hits_r.
      evaluation_loop get_similar_bugs dups bugs (tr', hr', tp, hp) = Inr (total_r, hits_r, tp, hp)"
    for tr' hr'
    by simp
  show ?case
  proof (cases "dd_get dups (bug_id b) = {}")
    case True
    with rest [of tr hr] show ?thesis by simp
  next
    case False
    with Cons.prems have "get_similar_bugs b = Inr []" by simp
    with False rest [of "tr + card (dd_get dups (bug_id b))" hr] show ?thesis
      by (simp add: bind_err_Inr)
  qed
qed

text \<open>
  C8, as the claim states it, fails: with no report to query the harness ends with the
  ZeroDivisionError of \<^verbatim>\<open>hits_r/total_r\<close>, and with a backend that returns nothing with that
  of \<^verbatim>\<open>hits_p/total_p\<close>, after the recall is printed.
\<close>

theorem evaluation_raises_zero_division:
  "evaluation (\<lambda>b. Inr []) [] = ([], Some ZeroDivisionError)
   \<and> evaluation (\<lambda>b. Inr []) [report_filed_dupe, report_target] = ([0], Some ZeroDivisionError)"
proof -
  have d: "duplicates [report_filed_dupe, report_target] = [1 \<mapsto> {2}, 2 \<mapsto> {1}]"
    by (rule ext) (simp add: ground_truth_defs report_filed_dupe_def report_target_def)
  have "evaluation (\<lambda>b. Inr []) [] = ([], Some ZeroDivisionError)"
    by (simp add: evaluation_def)
  moreover have "evaluation (\<lambda>b. Inr []) [report_filed_dupe, report_target]
                   = ([0], Some ZeroDivisionError)"
    unfolding evaluation_def d
    by (simp add: dd_get_def bind_err_Inr report_filed_dupe_def report_target_def)
  ultimately show ?thesis by simp
qed

text \<open>
  C8, amended. When every report that is queried (every report with a known duplicate)
  gets an empty result, in particular when no report is queried at all, the harness ends
  by raising ZeroDivisionError: the division is not guarded and no other condition is
  reported.
\<close>

theorem evaluation_zero_denominator:
  assumes "\<forall>b\<in>set bugs. dd_get (duplicates bugs) (bug_id b) \<noteq> {} \<longrightarrow> get_similar_bugs b = Inr []"
  shows "snd (evaluation get_similar_bugs bugs) = Some ZeroDivisionError"
proof -
  from evaluation_loop_no_results [OF assms, of 0 0 0 0]
  obtain total_r hits_r where
    "evaluation_loop get_similar_bugs (duplicates bugs) bugs (0, 0, 0, 0)
       = Inr (total_r, hits_r, 0, 0)"
    by blast
  then show ?thesis
    by (simp add: evaluation_def Let_def)
qed

theorem evaluation_zero_denominator_witness:
  "snd (evaluation (\<lambda>b. Inr []) [report_filed_dupe, report_target]) = Some ZeroDivisionError"
  using evaluation_zero_denominator [of "[report_filed_dupe, report_target]" "\<lambda>b. Inr []"]
  by simp

section \<open>Properties of the simple backends\<close>

text \<open>
  C1 at a concrete input. The latent-semantic backend returns the first \<open>k\<close> documents by
  similarity and removes nothing: queried with a report of its own corpus, it returns that
  report's identifier, first.
\<close>

theorem lsi_returns_query_itself:
  "LSISimilarity_get_similar_bugs nlp_example lsi_example
     (query_report 1 ''Crash'' ''startup'') 10 = Inr [1, 2]"
  by (simp add: LSISimilarity_get_similar_bugs_def lsi_example_def query_report_def)

text \<open>The vector-space backend does remove the query's identifier (line 186).\<close>

lemma neighbors_no_self_match:
  "NeighborsSimilarity_get_similar_bugs self query = Inr ids \<Longrightarrow> bug_id query \<notin> set ids"
  by (auto simp: NeighborsSimilarity_get_similar_bugs_def bind_err_def Let_def
      split: sum.splits)

text \<open>
  C10 at a concrete input. The backend is fitted on the normalized texts \<open>hang hang\<close> and
  \<open>crash crash\<close>. The query \<open>Crashes crash\<close> normalizes to \<open>crash crash\<close>, the text of
  report 1, but the backend hands the raw text to the vectorizer and finds report 2.
\<close>

theorem neighbors_query_not_normalized:
  "bind_err
     (NeighborsSimilarity_init nlp_example 1 text_vectorizer discrete_neighbors neighbors_reports)
     (\<lambda>self. NeighborsSimilarity_get_similar_bugs self (query_report 3 ''Crashes'' ''crash''))
     = Inr [2]
   \<and> bind_err
     (NeighborsSimilarity_init nlp_example 1 text_vectorizer discrete_neighbors neighbors_reports)
     (\<lambda>self. NeighborsSimilarity_get_similar_bugs_spec nlp_example self
               (query_report 3 ''Crashes'' ''crash''))
     = Inr [1]"
  by code_simp

section \<open>Properties of the text normalization\<close>

lemma space_facts:
  "is_space (CHR '' '')" "\<not> is_alnum (CHR '' '')" "lower_char (CHR '' '') = CHR '' ''"
  by (simp_all add: is_space_def is_alnum_def lower_char_def)

lemma lower_or_digit_facts:
  assumes "is_lower_or_digit c"
  shows "is_alnum c" "\<not> is_space c" "lower_char c = c"
  using assms
  by (auto simp: is_lower_or_digit_def is_alnum_def is_space_def lower_char_def Let_def)

lemma split_from_word:
  "\<forall>c\<in>set w. \<not> is_space c \<Longrightarrow> split_from cur (w @ rest) = split_from (cur @ w) rest"
  by (induction w arbitrary: cur) simp_all

lemma str_split_join:
  "\<forall>t\<in>set toks. t \<noteq> [] \<and> (\<forall>c\<in>set t. \<not> is_space c) \<Longrightarrow> str_split (str_join toks) = toks"
proof (induction toks rule: str_join.induct)
  case 1
  show ?case by (simp add: str_split_def)
next
  case (2 w)
  then have "split_from [] (w @ []) = split_from ([] @ w) []"
    by (intro split_from_word) simp
  with 2 show ?case by (simp add: str_split_def)
next
  case (3 w v ws)
  then have w: "w \<noteq> []" "\<forall>c\<in>set w. \<not> is_space c"
    by simp_all
  have "split_from [] (w @ (CHR '' '' # str_join (v # ws)))
          = split_from ([] @ w) (CHR '' '' # str_join (v # ws))"
    using w(2) by (rule split_from_word)
  also have "\<dots> = w # split_from [] (str_join (v # ws))"
    using w(1) by (simp add: space_facts)
  also have "split_from [] (str_join (v # ws)) = v # ws"
    using 3 by (simp add: str_split_def)
  finally show ?case by (simp add: str_split_def)
qed

lemma set_str_join: "set (str_join toks) \<subseteq> \<Union>(set ` set toks) \<union> {CHR '' ''}"
  by (induction toks rule: str_join.induct) auto

lemma re_sub_lower_join:
  assumes "\<forall>t\<in>set toks. \<forall>c\<in>set t. is_lower_or_digit c"
  shows "str_lower (re_sub_non_alnum (str_join toks)) = str_join toks"
proof -
  have "lower_char (if is_alnum c then c else CHR '' '') = c" if "c \<in> set (str_join toks)" for c
  proof (cases "c = CHR '' ''")
    case True
    then show ?thesis by (simp add: space_facts)
  next
    case False
    with that set_str_join [of toks] obtain t where "t \<in> set toks" "c \<in> set t"
      by auto
    with assms have "is_lower_or_digit c" by blast
    then show ?thesis by (simp add: lower_or_digit_facts)
  qed
  then show ?thesis
    by (simp add: str_lower_def re_sub_non_alnum_def map_idI)
qed

lemma text_preprocess_unfold:
  "fold (\<lambda>func text. func text) (cleanup_functions env) t = t \<Longrightarrow>
   text_preprocess env t
     = map (ps_stem env)
         (filter (\<lambda>word. word \<notin> set (stopwords_english env) \<and> length word > 1)
            (str_split (str_lower (re_sub_non_alnum t))))"
  by (simp add: text_preprocess_def Let_def)

text \<open>
  C9, as the claim states it, fails. The stemmer turns \<open>wills\<close> into \<open>will\<close>, which is a
  stop word: the first pass gives the token \<open>will\<close>, the second pass removes it.
\<close>

theorem text_preprocess_not_idempotent:
  "text_preprocess nlp_example ''wills'' = [''will'']
   \<and> text_preprocess nlp_example (text_preprocess_join nlp_example ''wills'') = []"
  by code_simp

text \<open>
  C9, amended. Normalizing the space-joined result of a first pass returns the tokens of
  the first pass whenever the cleanup functions leave the joined result as it is, and
  every token of the first pass consists of digits and lower-case letters, is longer
  than one character, is not a stop word and is its own stem.
\<close>

theorem text_preprocess_idempotent:
  assumes "fold (\<lambda>func text. func text) (cleanup_functions env) (text_preprocess_join env text)
             = text_preprocess_join env text"
    and "\<forall>t\<in>set (text_preprocess env text).
           (\<forall>c\<in>set t. is_lower_or_digit c) \<and> length t > 1
           \<and> t \<notin> set (stopwords_english env) \<and> ps_stem env t = t"
  shows "text_preprocess env (text_preprocess_join env text) = text_preprocess env text"
proof -
  define toks where "toks = text_preprocess env text"
  have chars: "\<forall>t\<in>set toks. \<forall>c\<in>set t. is_lower_or_digit c"
    using assms(2) by (simp add: toks_def)
  have words: "\<forall>t\<in>set toks. t \<noteq> [] \<and> (\<forall>c\<in>set t. \<not> is_space c)"
    using assms(2) by (auto simp: toks_def lower_or_digit_facts)
  have kept: "filter (\<lambda>word. word \<notin> set (stopwords_english env) \<and> length word > 1) toks = toks"
    using assms(2) by (auto simp: toks_def intro: filter_True)
  have stems: "map (ps_stem env) toks = toks"
    using assms(2) by (auto simp: toks_def intro: map_idI)
  have "fold (\<lambda>func text. func text) (cleanup_functions env) (str_join toks) = str_join toks"
    using assms(1) by (simp add: text_preprocess_join_def toks_def)
  then have "text_preprocess env (str_join toks)
          = map (ps_stem env)
              (filter (\<lambda>word. word \<notin> set (stopwords_english env) \<and> length word > 1)
                 (str_split (str_lower (re_sub_non_alnum (str_join toks)))))"
    by (rule text_preprocess_unfold)
  also have "\<dots> = toks"
    by (simp only: re_sub_lower_join [OF chars] str_split_join [OF words] kept stems)
  finally show ?thesis
    by (simp add: text_preprocess_join_def toks_def)
qed

theorem text_preprocess_idempotent_witness:
  "text_preprocess nlp_example ''Crash on Startup!'' = [''crash'', ''startup'']
   \<and> text_preprocess nlp_example (text_preprocess_join nlp_example ''Crash on Startup!'')
       = [''crash'', ''startup'']"
proof -
  have toks: "text_preprocess nlp_example ''Crash on Startup!'' = [''crash'', ''startup'']"
    by code_simp
  have joined: "text_preprocess_join nlp_example ''Crash on Startup!'' = ''crash startup''"
    by (simp add: text_preprocess_join_def toks)
  have cleanup: "fold (\<lambda>func text. func text) (cleanup_functions nlp_example) ''crash startup''
                   = ''crash startup''"
    by (simp add: nlp_example_def)
  have tokens: "\<forall>t\<in>set [''crash'', ''startup''].
           (\<forall>c\<in>set t. is_lower_or_digit c) \<and> length t > 1
           \<and> t \<notin> set (stopwords_english nlp_example) \<and> ps_stem nlp_example t = t"
    by code_simp
  from text_preprocess_idempotent [of nlp_example "''Crash on Startup!''"] cleanup tokens
  show ?thesis
    by (simp add: toks joined)
qed

section \<open>Properties of the word-embedding-distance backend\<close>

subsection \<open>The transport distance between two one-word histograms\<close>

lemma sum_less_two: "(\<Sum>j<2. f j) = f 0 + f (1::nat)" for f :: "nat \<Rightarrow> real"
  by (simp add: numeral_2_eq_2)

text \<open>
  When all the mass of the first histogram is in bin 0 and all the mass of the second in
  bin 1, one flow is feasible, the one that moves everything from bin 0 to bin 1, and the
  distance is the cost of that pair.
\<close>

lemma emd_two_bins: "emd [1, 0] [0, 1] [[0, c], [0, 0]] = c"
proof -
  have len: "length [1, 0 :: real] = 2" "length [0, 1 :: real] = 2"
    by simp_all
  have flows: "{c'. \<exists>F. feasible [1, 0] [0, 1] F \<and> c' = flow_cost [[0, c], [0, 0]] 2 2 F} = {c}"
  proof (intro equalityI subsetI)
    fix c'
    assume "c' \<in> {c'. \<exists>F. feasible [1, 0] [0, 1] F \<and> c' = flow_cost [[0, c], [0, 0]] 2 2 F}"
    then obtain F where F: "feasible [1, 0] [0, 1] F"
      and c': "c' = flow_cost [[0, c], [0, 0]] 2 2 F"
      by blast
    from F have nn: "0 \<le> F i j" for i j
      by (simp add: feasible_def)
    from F have rows: "i < 2 \<Longrightarrow> (\<Sum>j<2. F i j) = [1, 0] ! i"
      and cols: "j < 2 \<Longrightarrow> (\<Sum>i<2. F i j) = [0, 1] ! j" for i j
      unfolding feasible_def len by blast+
    from rows [of 0] cols [of 0] have r0: "F 0 0 + F 0 1 = 1" and c0: "F 0 0 + F 1 0 = 0"
      by (simp_all add: sum_less_two)
    from nn [of 0 0] nn [of 1 0] c0 have "F 0 0 = 0" by linarith
    with r0 have "F 0 1 = 1" by simp
    then show "c' \<in> {c}"
      by (simp add: c' flow_cost_def sum_less_two)
  next
    fix c'
    assume "c' \<in> {c}"
    then have c': "c' = c" by simp
    define F :: "nat \<Rightarrow> nat \<Rightarrow> real" where "F = (\<lambda>i j. if i = 0 \<and> j = 1 then 1 else 0)"
    have "feasible [1, 0] [0, 1] F"
      by (auto simp: feasible_def F_def sum_less_two less_Suc_eq numeral_2_eq_2)
    moreover have "c' = flow_cost [[0, c], [0, 0]] 2 2 F"
      by (simp add: c' flow_cost_def F_def sum_less_two)
    ultimately show "c' \<in> {c'. \<exists>F. feasible [1, 0] [0, 1] F \<and> c' = flow_cost [[0, c], [0, 0]] 2 2 F}"
      by blast
  qed
  show ?thesis
    unfolding emd_def len flows by simp
qed

subsection \<open>The example backend, step by step\<close>

lemma dot_replicate_zero: "dot (replicate n 0) (replicate n 0) = 0"
  by (induction n) (simp_all add: dot_def)

lemma dot_unit_vec: "dot (unit_vec a b) (unit_vec c d) = a * c + b * d"
  using dot_replicate_zero [of 98] by (simp add: unit_vec_def dot_def)

lemma vocab_example:
  "vocab w2v_example ''hang'' = Some 0" "vocab w2v_example ''crash'' = Some 1"
  "vocab w2v_example ''leak'' = Some 2" "vocab w2v_example ''zzz'' = None"
  by (simp_all add: w2v_example_def)

lemma vectors_example:
  "vectors_norm w2v_example = [unit_vec (- 1) 0, unit_vec 1 0, unit_vec 0 1]"
  by (simp add: w2v_example_def)

lemma wmd_example_fields:
  "wmd_corpus wmd_example =
     [[''hang''], [''hang''], [''hang''], [''hang''], [''hang''], [''hang''], [''hang''],
      [''hang''], [''hang''], [''hang''], replicate 5 ''leak'', replicate 5 ''crash'']"
  "wmd_bug_ids wmd_example = [1, 2, 3, 4, 5, 6, 7, 8, 9, 10, 11, 12]"
  "w2vmodel wmd_example = w2v_example"
  by (simp_all add: wmd_example_def eval_nat_numeral)

lemma in_vocab_example:
  "in_vocab_words w2v_example [''hang''] = [''hang'']"
  "in_vocab_words w2v_example (replicate 5 ''leak'') = replicate 5 ''leak''"
  "in_vocab_words w2v_example (replicate 5 ''crash'') = replicate 5 ''crash''"
  "in_vocab_words w2v_example [''crash''] = [''crash'']"
  "in_vocab_words w2v_example [''crash'', ''crash''] = [''crash'', ''crash'']"
  "in_vocab_words w2v_example [''zzz''] = []"
  by (simp_all add: in_vocab_words_def vocab_example)

lemma vocab_indexes_example:
  "vocab_indexes w2v_example [''hang''] = Inr [0]"
  "vocab_indexes w2v_example (replicate 5 ''leak'') = Inr [2, 2, 2, 2, 2]"
  "vocab_indexes w2v_example (replicate 5 ''crash'') = Inr [Suc 0, Suc 0, Suc 0, Suc 0, Suc 0]"
  by (simp_all add: vocab_indexes_def vocab_example eval_nat_numeral)

lemmas all_distances_defs =
  all_distances_of_def vocab_indexes_def np_take_def bind_err_Inr bind_err_Inl vocab_example
  vectors_example dot_unit_vec

text \<open>The distance matrix of the query \<open>crash\<close>, of \<open>crash crash\<close> and of a query with no word.\<close>

lemma all_distances_crash: "all_distances_of w2v_example [''crash''] = Inr [[2], [0], [1]]"
  by (simp add: all_distances_defs)

lemma all_distances_crash_crash:
  "all_distances_of w2v_example [''crash'', ''crash''] = Inr [[2, 2], [0, 0], [1, 1]]"
  by (simp add: all_distances_defs)

lemma all_distances_no_word: "all_distances_of w2v_example [] = Inr [[], [], []]"
  by (simp add: all_distances_defs)

lemmas rwmd_defs =
  rwmd_def np_take_def np_min_axis0_def np_min_axis1_def np_min_def bind_err_Inr bind_err_Inl

lemma rwmd_example:
  "rwmd [[2, 2], [0, 0], [1, 1]] [0] = Inr 4"
  "rwmd [[2], [0], [1]] [0] = Inr 2"
  "rwmd [[2], [0], [1]] [2, 2, 2, 2, 2] = Inr 5"
  "rwmd [[2], [0], [1]] [Suc 0, Suc 0, Suc 0, Suc 0, Suc 0] = Inr 0"
  "rwmd [[], [], []] [0] = Inl ValueError"
  by (simp_all add: rwmd_defs)

lemmas wmdistance_defs =
  wmdistance_def gensim_dictionary_def dictionary_add_def distance_entry_def nbow_def Let_def
  bind_err_Inr bind_err_Inl vocab_example emd_two_bins

lemma wmdistance_example:
  "wmdistance w2v_example [''crash'', ''crash''] [''hang''] [[2, 2], [0, 0], [1, 1]] = Inr (Fin 2)"
  "wmdistance w2v_example [''crash''] [''hang''] [[2], [0], [1]] = Inr (Fin 2)"
  "wmdistance w2v_example [''crash''] (replicate 5 ''leak'') [[2], [0], [1]] = Inr (Fin 1)"
  "wmdistance w2v_example [''crash''] (replicate 5 ''crash'') [[2], [0], [1]] = Inr PInf"
  by (simp_all add: wmdistance_defs eval_nat_numeral)

lemma upt_twelve: "[0..<12] = [0, 1, 2, 3, 4, 5, 6, 7, 8, 9, 10, 11]"
  by (simp add: upt_rec)

lemmas candidate_simps =
  wmd_example_fields upt_twelve in_vocab_example vocab_indexes_example rwmd_example
  wmdistance_example bind_err_Inr bind_err_Inl

lemma relaxed_distances_crash:
  "relaxed_distances wmd_example [[2], [0], [1]] =
     Inr [(1, 2), (2, 2), (3, 2), (4, 2), (5, 2), (6, 2), (7, 2), (8, 2), (9, 2), (10, 2),
          (11, 5), (12, 0)]"
  by (simp add: relaxed_distances_def relaxed_candidate_def candidate_simps)

lemma relaxed_distances_no_word: "relaxed_distances wmd_example [[], [], []] = Inl ValueError"
  by (simp add: relaxed_distances_def relaxed_candidate_def candidate_simps)

lemma sorted_distances_crash:
  "sort_key snd [(1::int, 2::real), (2, 2), (3, 2), (4, 2), (5, 2), (6, 2), (7, 2), (8, 2),
                 (9, 2), (10, 2), (11, 5), (12, 0)]
     = [(12, 0), (1, 2), (2, 2), (3, 2), (4, 2), (5, 2), (6, 2), (7, 2), (8, 2), (9, 2),
        (10, 2), (11, 5)]"
  by simp

text \<open>
  The refinement loop on the example, one candidate at a time. The last step is the
  \<^verbatim>\<open>break\<close>: ten distances are confirmed, the tenth is 2, and the relaxed distance of
  report 11 is 5.
\<close>

lemmas refine_step_simps =
  wmd_example_fields in_vocab_example wmdistance_example bind_err_Inr bind_err_Inl bisect_def
  less_fdist_def list_insert_def

lemma refine_steps:
  "refine wmd_example [''crash''] [[2], [0], [1]] ((12, 0) # rest) ([], [])
     = refine wmd_example [''crash''] [[2], [0], [1]] rest ([12], [PInf])"
  "refine wmd_example [''crash''] [[2], [0], [1]] ((1, 2) # rest) ([12], [PInf])
     = refine wmd_example [''crash''] [[2], [0], [1]] rest ([1, 12], [Fin 2, PInf])"
  "refine wmd_example [''crash''] [[2], [0], [1]] ((2, 2) # rest) ([1, 12], [Fin 2, PInf])
     = refine wmd_example [''crash''] [[2], [0], [1]] rest
         ([1, 2, 12], [Fin 2, Fin 2, PInf])"
  "refine wmd_example [''crash''] [[2], [0], [1]] ((3, 2) # rest)
       ([1, 2, 12], [Fin 2, Fin 2, PInf])
     = refine wmd_example [''crash''] [[2], [0], [1]] rest
         ([1, 2, 3, 12], [Fin 2, Fin 2, Fin 2, PInf])"
  "refine wmd_example [''crash''] [[2], [0], [1]] ((4, 2) # rest)
       ([1, 2, 3, 12], [Fin 2, Fin 2, Fin 2, PInf])
     = refine wmd_example [''crash''] [[2], [0], [1]] rest
         ([1, 2, 3, 4, 12], [Fin 2, Fin 2, Fin 2, Fin 2, PInf])"
  "refine wmd_example [''crash''] [[2], [0], [1]] ((5, 2) # rest)
       ([1, 2, 3, 4, 12], [Fin 2, Fin 2, Fin 2, Fin 2, PInf])
     = refine wmd_example [''crash''] [[2], [0], [1]] rest
         ([1, 2, 3, 4, 5, 12], [Fin 2, Fin 2, Fin 2, Fin 2, Fin 2, PInf])"
  "refine wmd_example [''crash''] [[2], [0], [1]] ((6, 2) # rest)
       ([1, 2, 3, 4, 5, 12], [Fin 2, Fin 2, Fin 2, Fin 2, Fin 2, PInf])
     = refine wmd_example [''crash''] [[2], [0], [1]] rest
         ([1, 2, 3, 4, 5, 6, 12], [Fin 2, Fin 2, Fin 2, Fin 2, Fin 2, Fin 2, PInf])"
  "refine wmd_example [''crash''] [[2], [0], [1]] ((7, 2) # rest)
       ([1, 2, 3, 4, 5, 6, 12], [Fin 2, Fin 2, Fin 2, Fin 2, Fin 2, Fin 2, PInf])
     = refine wmd_example [''crash''] [[2], [0], [1]] rest
         ([1, 2, 3, 4, 5, 6, 7, 12], [Fin 2, Fin 2, Fin 2, Fin 2, Fin 2, Fin 2, Fin 2, PInf])"
  "refine wmd_example [''crash''] [[2], [0], [1]] ((8, 2) # rest)
       ([1, 2, 3, 4, 5, 6, 7, 12], [Fin 2, Fin 2, Fin 2, Fin 2, Fin 2, Fin 2, Fin 2, PInf])
     = refine wmd_example [''crash''] [[2], [0], [1]] rest
         ([1, 2, 3, 4, 5, 6, 7, 8, 12],
          [Fin 2, Fin 2, Fin 2, Fin 2, Fin 2, Fin 2, Fin 2, Fin 2, PInf])"
  "refine wmd_example [''crash''] [[2], [0], [1]] ((9, 2) # rest)
       ([1, 2, 3, 4, 5, 6, 7, 8, 12],
        [Fin 2, Fin 2, Fin 2, Fin 2, Fin 2, Fin 2, Fin 2, Fin 2, PInf])
     = refine wmd_example [''crash''] [[2], [0], [1]] rest
         ([1, 2, 3, 4, 5, 6, 7, 8, 9, 12],
          [Fin 2, Fin 2, Fin 2, Fin 2, Fin 2, Fin 2, Fin 2, Fin 2, Fin 2, PInf])"
  "refine wmd_example [''crash''] [[2], [0], [1]] ((10, 2) # rest)
       ([1, 2, 3, 4, 5, 6, 7, 8, 9, 12],
        [Fin 2, Fin 2, Fin 2, Fin 2, Fin 2, Fin 2, Fin 2, Fin 2, Fin 2, PInf])
     = refine wmd_example [''crash''] [[2], [0], [1]] rest
         ([1, 2, 3, 4, 5, 6, 7, 8, 9, 10, 12],
          [Fin 2, Fin 2, Fin 2, Fin 2, Fin 2, Fin 2, Fin 2, Fin 2, Fin 2, Fin 2, PInf])"
  "refine wmd_example [''crash''] [[2], [0], [1]] ((11, 5) # rest)
       ([1, 2, 3, 4, 5, 6, 7, 8, 9, 10, 12],
        [Fin 2, Fin 2, Fin 2, Fin 2, Fin 2, Fin 2, Fin 2, Fin 2, Fin 2, Fin 2, PInf])
     = Inr ([1, 2, 3, 4, 5, 6, 7, 8, 9, 10, 12],
            [Fin 2, Fin 2, Fin 2, Fin 2, Fin 2, Fin 2, Fin 2, Fin 2, Fin 2, Fin 2, PInf])"
  by (simp_all add: refine_step_simps)

lemma refine_crash:
  "refine wmd_example [''crash''] [[2], [0], [1]]
     [(12, 0), (1, 2), (2, 2), (3, 2), (4, 2), (5, 2), (6, 2), (7, 2), (8, 2), (9, 2),
      (10, 2), (11, 5)] ([], [])
     = Inr ([1, 2, 3, 4, 5, 6, 7, 8, 9, 10, 12],
            [Fin 2, Fin 2, Fin 2, Fin 2, Fin 2, Fin 2, Fin 2, Fin 2, Fin 2, Fin 2, PInf])"
  by (simp only: refine_steps)

lemma exact_distances_crash:
  "mapM_err (exact_candidate wmd_example [''crash''] [[2], [0], [1]])
     [0..<length (wmd_corpus wmd_example)]
     = Inr [[(1, Fin 2)], [(2, Fin 2)], [(3, Fin 2)], [(4, Fin 2)], [(5, Fin 2)], [(6, Fin 2)],
            [(7, Fin 2)], [(8, Fin 2)], [(9, Fin 2)], [(10, Fin 2)], [(11, Fin 1)], [(12, PInf)]]"
  by (simp add: exact_candidate_def candidate_simps)

lemma preprocess_example:
  "text_preprocess nlp_example ''crash '' = [''crash'']"
  "text_preprocess nlp_example ''crash crash'' = [''crash'', ''crash'']"
  "text_preprocess nlp_example ''zzz '' = [''zzz'']"
  by code_simp+

subsection \<open>The claims about the backend\<close>

text \<open>The backend removes the query's own identifier from what it returns (line 314).\<close>

lemma wmd_no_self_match:
  "Word2VecWmdSimilarity_get_similar_bugs env self query = Inr ids \<Longrightarrow> bug_id query \<notin> set ids"
  by (auto simp: Word2VecWmdSimilarity_get_similar_bugs_def bind_err_def Let_def
      split: sum.splits)

text \<open>
  C3 at a concrete input. For the query \<open>crash crash\<close> and the document \<open>hang\<close> (whose one
  word has index 0), the relaxed distance of stage 1 is 4, the sum over the two query
  words of their distance 2 to the nearest word of the document, and the exact transport
  distance of stage 2 is 2: the relaxed distance is not a lower bound.
\<close>

theorem relaxed_distance_exceeds_exact:
  "vocab_indexes w2v_example [''hang''] = Inr [0]
   \<and> bind_err (all_distances_of w2v_example [''crash'', ''crash''])
        (\<lambda>all_distances. rwmd all_distances [0]) = Inr 4
   \<and> bind_err (all_distances_of w2v_example [''crash'', ''crash''])
        (\<lambda>all_distances.
           wmdistance w2v_example [''crash'', ''crash''] [''hang''] all_distances)
      = Inr (Fin 2)"
  by (simp add: all_distances_crash_crash vocab_indexes_example rwmd_example
      wmdistance_example bind_err_Inr)

text \<open>
  C2 at a concrete input. Queried with \<open>crash\<close>, the backend returns the reports 1 to 10,
  all at the exact distance 2: report 11, at the exact distance 1, has the relaxed
  distance 5 and is cut off by the early termination. The brute-force ranking puts
  report 11 first.
\<close>

theorem filter_refine_differs_from_brute_force:
  "Word2VecWmdSimilarity_get_similar_bugs nlp_example wmd_example (query_report 100 ''crash'' '''')
     = Inr [1, 2, 3, 4, 5, 6, 7, 8, 9, 10]
   \<and> brute_force_similar_bugs nlp_example wmd_example (query_report 100 ''crash'' '''')
     = Inr [11, 1, 2, 3, 4, 5, 6, 7, 8, 9]"
proof -
  have query_text: "get_text (query_report 100 ''crash'' '''') = Inr ''crash ''"
    by (simp add: get_text_def query_report_def)
  have own: "bug_id (query_report 100 ''crash'' '''') = 100"
    by (simp add: query_report_def)
  have "Word2VecWmdSimilarity_get_similar_bugs nlp_example wmd_example
          (query_report 100 ''crash'' '''') = Inr [1, 2, 3, 4, 5, 6, 7, 8, 9, 10]"
    by (simp add: Word2VecWmdSimilarity_get_similar_bugs_def query_text own preprocess_example
        wmd_example_fields in_vocab_example all_distances_crash relaxed_distances_crash
        sorted_distances_crash refine_crash bind_err_Inr Let_def less_fdist_def
        del: refine.simps)
  moreover have "brute_force_similar_bugs nlp_example wmd_example
          (query_report 100 ''crash'' '''') = Inr [11, 1, 2, 3, 4, 5, 6, 7, 8, 9]"
    by (simp add: brute_force_similar_bugs_def query_text own preprocess_example
        wmd_example_fields(3) in_vocab_example all_distances_crash exact_distances_crash
        bind_err_Inr Let_def less_fdist_def)
  ultimately show ?thesis by simp
qed

text \<open>
  C7 at a concrete input. The one token of the query \<open>zzz\<close> is not in the vocabulary, so
  the list of its words is empty and the distance matrix has no column; the minimum along
  axis 1 for the first document of the corpus raises ValueError.
\<close>

theorem empty_query_raises:
  "in_vocab_words w2v_example (text_preprocess nlp_example ''zzz '') = []
   \<and> Word2VecWmdSimilarity_get_similar_bugs nlp_example wmd_example (query_report 100 ''zzz'' '''')
       = Inl ValueError"
proof -
  have query_text: "get_text (query_report 100 ''zzz'' '''') = Inr ''zzz ''"
    by (simp add: get_text_def query_report_def)
  show ?thesis
    by (simp add: Word2VecWmdSimilarity_get_similar_bugs_def query_text preprocess_example
        wmd_example_fields in_vocab_example all_distances_no_word relaxed_distances_no_word
        bind_err_Inr bind_err_Inl Let_def)
qed

end
